theory Spec2Isabelle
  imports Main "HOL-Library.Word" "HOL-Library.AList" "HOL-Library.Sublist"
begin

section \<open>Python values used by run.py\<close>

text \<open>
  A Python \<^verbatim>\<open>bytes\<close> value is a list of 8-bit words. A Python \<^verbatim>\<open>str\<close> is a
  sequence of Unicode code points, so it is a list of naturals; \<open>py ''abc''\<close> writes
  an ASCII literal. Paths are kept as the list of their components below the
  directory that is walked (the source or the target directory), so
  \<^verbatim>\<open>os.path.join(root, file)\<close> is \<open>root @ [file]\<close>, \<^verbatim>\<open>os.path.basename\<close> is
  \<open>last\<close> and \<^verbatim>\<open>os.path.dirname\<close> is \<open>butlast\<close>.
\<close>

type_synonym byte = "8 word"

type_synonym pystr = "nat list"

type_synonym path = "pystr list"

abbreviation py :: "string \<Rightarrow> pystr" where
  "py s \<equiv> map of_char s"

text \<open>\<^verbatim>\<open>str(n)\<close> for a non-negative integer: its decimal digits.\<close>

fun str_nat :: "nat \<Rightarrow> pystr" where
  "str_nat n = (if n < 10 then [48 + n] else str_nat (n div 10) @ [48 + n mod 10])"

declare str_nat.simps [simp del]

text \<open>\<^verbatim>\<open>s.encode()\<close> on a string of ASCII digits: one byte per character.\<close>

definition encode_ascii :: "pystr \<Rightarrow> byte list" where
  "encode_ascii s = map of_nat s"

text \<open>The value that a string of decimal digits denotes (used to state what \<open>str_nat\<close> is).\<close>

definition decimal_value :: "pystr \<Rightarrow> nat" where
  "decimal_value s = foldl (\<lambda>acc c. 10 * acc + (c - 48)) 0 s"

section \<open>hashlib.md5 and binary files\<close>

text \<open>
  \<^verbatim>\<open>hashlib\<close> is not part of the repository: the digest function is a parameter
  \<open>md5\<close> from the message to a 128-bit value. A hash object accumulates what
  \<^verbatim>\<open>update\<close> is given; \<^verbatim>\<open>hexdigest\<close> renders the digest of the accumulated message
  as 32 lowercase hexadecimal digits.
\<close>

record md5_obj =
  message :: "byte list"

definition hashlib_md5 :: md5_obj where
  "hashlib_md5 = \<lparr>message = []\<rparr>"

definition md5_update :: "byte list \<Rightarrow> md5_obj \<Rightarrow> md5_obj" where
  "md5_update bs h = h\<lparr>message := message h @ bs\<rparr>"

definition hex_digit :: "nat \<Rightarrow> nat" where
  "hex_digit d = (if d < 10 then 48 + d else 87 + d)"

definition hex_of_digest :: "128 word \<Rightarrow> pystr" where
  "hex_of_digest w = map (\<lambda>i. hex_digit (unat (drop_bit (4 * (31 - i)) w) mod 16)) [0..<32]"

definition hexdigest :: "(byte list \<Rightarrow> 128 word) \<Rightarrow> md5_obj \<Rightarrow> pystr" where
  "hexdigest md5 h = hex_of_digest (md5 (message h))"

text \<open>A file opened with \<^verbatim>\<open>open(path, 'rb')\<close>: its bytes and the read position.\<close>

record file_obj =
  data :: "byte list"
  pos :: nat

definition open_rb :: "byte list \<Rightarrow> file_obj" where
  "open_rb c = \<lparr>data = c, pos = 0\<rparr>"

text \<open>\<^verbatim>\<open>f.read()\<close>: everything from the position to the end.\<close>

definition f_read_all :: "file_obj \<Rightarrow> byte list \<times> file_obj" where
  "f_read_all f = (let d = drop (pos f) (data f) in (d, f\<lparr>pos := pos f + length d\<rparr>))"

text \<open>\<^verbatim>\<open>f.read(n)\<close>: at most \<open>n\<close> bytes from the position.\<close>

definition f_read :: "nat \<Rightarrow> file_obj \<Rightarrow> byte list \<times> file_obj" where
  "f_read n f = (let d = take n (drop (pos f) (data f)) in (d, f\<lparr>pos := pos f + length d\<rparr>))"

definition f_seek :: "nat \<Rightarrow> file_obj \<Rightarrow> file_obj" where
  "f_seek p f = f\<lparr>pos := p\<rparr>"

section \<open>The file system\<close>

text \<open>
  A directory tree: a regular file carries whether it can be opened for reading and its
  bytes; a directory lists its entries in the order \<^verbatim>\<open>os.scandir\<close> returns them.
  Symbolic links and special files are not modelled.
\<close>

datatype fsnode = File bool "byte list" | Dir "(pystr \<times> fsnode) list"

datatype os_error =
    FileNotFoundError
  | IsADirectoryError
  | NotADirectoryError
  | PermissionError
  | FileExistsError
  | ShutilError
  | UnicodeEncodeError
  | JSONDecodeError

fun fs_lookup :: "fsnode \<Rightarrow> path \<Rightarrow> fsnode option" where
  "fs_lookup t [] = Some t"
| "fs_lookup (File r c) (n # p) = None"
| "fs_lookup (Dir es) (n # p) = (case map_of es n of None \<Rightarrow> None | Some sub \<Rightarrow> fs_lookup sub p)"

section \<open>get_fast_md5\<close>

definition sample_size :: nat where
  "sample_size = 1024 * 1024"

text \<open>
  The body of the \<^verbatim>\<open>with open(file_path, 'rb') as f\<close> block of \<^verbatim>\<open>get_fast_md5\<close>, for a
  file with bytes \<open>c\<close>: \<^verbatim>\<open>file_size\<close> is \<^verbatim>\<open>os.path.getsize(file_path)\<close>.
\<close>

definition feed_samples :: "byte list \<Rightarrow> md5_obj" where
  "feed_samples c =
     (let file_size = length c;
          hash_md = hashlib_md5;
          f = open_rb c
      in if file_size \<le> sample_size * 3 then
           (let (d, f) = f_read_all f in md5_update d hash_md)
         else
           (let (d, f) = f_read sample_size f;
                hash_md = md5_update d hash_md;
                f = f_seek (file_size div 2) f;
                (d, f) = f_read sample_size f;
                hash_md = md5_update d hash_md;
                f = f_seek (file_size - sample_size) f;
                (d, f) = f_read sample_size f;
                hash_md = md5_update d hash_md;
                hash_md = md5_update (encode_ascii (str_nat file_size)) hash_md
            in hash_md))"

text \<open>
  The \<^verbatim>\<open>try\<close> block: \<^verbatim>\<open>os.path.getsize\<close> raises for a missing path, \<^verbatim>\<open>open\<close> raises for
  a directory or an unreadable file.
\<close>

definition get_fast_md5_try :: "(byte list \<Rightarrow> 128 word) \<Rightarrow> fsnode \<Rightarrow> path \<Rightarrow> os_error + pystr" where
  "get_fast_md5_try md5 fs file_path =
     (case fs_lookup fs file_path of
        None \<Rightarrow> Inl FileNotFoundError
      | Some (Dir es) \<Rightarrow> Inl IsADirectoryError
      | Some (File readable c) \<Rightarrow>
          if readable then Inr (hexdigest md5 (feed_samples c)) else Inl PermissionError)"

text \<open>\<^verbatim>\<open>except Exception\<close>: the error is printed and \<^verbatim>\<open>None\<close> is returned.\<close>

definition get_fast_md5 :: "(byte list \<Rightarrow> 128 word) \<Rightarrow> fsnode \<Rightarrow> path \<Rightarrow> pystr option" where
  "get_fast_md5 md5 fs file_path =
     (case get_fast_md5_try md5 fs file_path of Inl e \<Rightarrow> None | Inr h \<Rightarrow> Some h)"

section \<open>os.walk\<close>

fun is_dir :: "fsnode \<Rightarrow> bool" where
  "is_dir (Dir es) = True"
| "is_dir (File r c) = False"

definition dir_names :: "(pystr \<times> fsnode) list \<Rightarrow> pystr list" where
  "dir_names es = map fst (filter (\<lambda>e. is_dir (snd e)) es)"

definition file_names :: "(pystr \<times> fsnode) list \<Rightarrow> pystr list" where
  "file_names es = map fst (filter (\<lambda>e. \<not> is_dir (snd e)) es)"

fun walk :: "path \<Rightarrow> fsnode \<Rightarrow> (path \<times> pystr list \<times> pystr list) list"
  and walk_entries :: "path \<Rightarrow> (pystr \<times> fsnode) list \<Rightarrow> (path \<times> pystr list \<times> pystr list) list" where
  "walk dir (File r c) = []"
| "walk dir (Dir es) = (dir, dir_names es, file_names es) # walk_entries dir es"
| "walk_entries dir [] = []"
| "walk_entries dir ((n, sub) # es) = walk (dir @ [n]) sub @ walk_entries dir es"

definition os_walk :: "fsnode option \<Rightarrow> (path \<times> pystr list \<times> pystr list) list" where
  "os_walk d = (case d of None \<Rightarrow> [] | Some t \<Rightarrow> walk [] t)"

definition walk_pairs :: "(path \<times> pystr list \<times> pystr list) list \<Rightarrow> (path \<times> pystr) list" where
  "walk_pairs w = concat (map (\<lambda>(root, dirs, files). map (Pair root) files) w)"

section \<open>scan\<close>

definition lower_cp :: "nat \<Rightarrow> nat" where
  "lower_cp c = (if 65 \<le> c \<and> c \<le> 90 then c + 32 else c)"

definition str_lower :: "pystr \<Rightarrow> pystr" where
  "str_lower s = map lower_cp s"

definition startswith_dot :: "pystr \<Rightarrow> bool" where
  "startswith_dot s = (take 1 s = [46])"

definition excluded :: "pystr \<Rightarrow> bool" where
  "excluded file = (startswith_dot file \<or> str_lower file = py ''thumbs.db'')"

fun os_path_relpath :: "path \<Rightarrow> pystr" where
  "os_path_relpath [] = [46]"
| "os_path_relpath [n] = n"
| "os_path_relpath (n # m # p) = n @ [47] @ os_path_relpath (m # p)"

datatype log_line =
    ScanStart
  | Progress nat
  | ScanDone nat
  | MapSaved
  | MapMissing
  | IndexStart
  | MatchStart
  | DryRunNotice
  | Moved bool pystr pystr
  | CleanStart
  | SyncDone nat

type_synonym pydict = "(pystr \<times> pystr) list"

fun scan_step :: "(byte list \<Rightarrow> 128 word) \<Rightarrow> fsnode \<Rightarrow> nat \<Rightarrow> pydict \<times> nat \<times> log_line list
    \<Rightarrow> path \<times> pystr \<Rightarrow> pydict \<times> nat \<times> log_line list" where
  "scan_step md5 fs progress_every (mapping, count, lg) (root, file) =
     (if excluded file then (mapping, count, lg)
      else
        (let full_path = root @ [file];
             rel_path = os_path_relpath full_path
         in case get_fast_md5 md5 fs full_path of
              None \<Rightarrow> (mapping, count, lg)
            | Some f_hash \<Rightarrow>
                if f_hash = [] then (mapping, count, lg)
                else
                  (let mapping = AList.update f_hash rel_path mapping;
                       count = count + 1
                   in (mapping, count,
                       if progress_every \<noteq> 0 \<and> count mod progress_every = 0
                       then lg @ [Progress count] else lg))))"

definition scan_mapping :: "(byte list \<Rightarrow> 128 word) \<Rightarrow> fsnode \<Rightarrow> nat \<Rightarrow> pydict \<times> nat \<times> log_line list" where
  "scan_mapping md5 fs progress_every =
     foldl (scan_step md5 fs progress_every) ([], 0, [ScanStart]) (walk_pairs (walk [] fs))"

section \<open>json\<close>

definition escape_char :: "nat \<Rightarrow> pystr" where
  "escape_char c =
     (if c = 34 then [92, 34]
      else if c = 92 then [92, 92]
      else if c = 8 then [92, 98]
      else if c = 12 then [92, 102]
      else if c = 10 then [92, 110]
      else if c = 13 then [92, 114]
      else if c = 9 then [92, 116]
      else if c < 32 then [92, 117, 48, 48, hex_digit (c div 16), hex_digit (c mod 16)]
      else [c])"

definition json_string :: "pystr \<Rightarrow> pystr" where
  "json_string s = [34] @ concat (map escape_char s) @ [34]"

definition json_item :: "pystr \<times> pystr \<Rightarrow> pystr" where
  "json_item kv = [10, 32, 32, 32, 32] @ json_string (fst kv) @ [58, 32] @ json_string (snd kv)"

fun json_items :: "pydict \<Rightarrow> pystr" where
  "json_items [] = []"
| "json_items [kv] = json_item kv"
| "json_items (kv # kw # m) = json_item kv @ [44] @ json_items (kw # m)"

definition json_dumps :: "pydict \<Rightarrow> pystr" where
  "json_dumps m = (if m = [] then [123, 125] else [123] @ json_items m @ [10, 125])"

definition is_surrogate :: "nat \<Rightarrow> bool" where
  "is_surrogate c = (55296 \<le> c \<and> c \<le> 57343)"

definition write_utf8 :: "pystr \<Rightarrow> os_error + pystr" where
  "write_utf8 text = (if list_ex is_surrogate text then Inl UnicodeEncodeError else Inr text)"

definition is_ws :: "nat \<Rightarrow> bool" where
  "is_ws c = (c = 32 \<or> c = 9 \<or> c = 10 \<or> c = 13)"

definition skip_ws :: "pystr \<Rightarrow> pystr" where
  "skip_ws s = dropWhile is_ws s"

definition hex_val :: "nat \<Rightarrow> nat option" where
  "hex_val c =
     (if 48 \<le> c \<and> c \<le> 57 then Some (c - 48)
      else if 97 \<le> c \<and> c \<le> 102 then Some (c - 87)
      else if 65 \<le> c \<and> c \<le> 70 then Some (c - 55)
      else None)"

fun hex4 :: "pystr \<Rightarrow> nat option" where
  "hex4 [a, b, c, d] =
     (case (hex_val a, hex_val b, hex_val c, hex_val d) of
        (Some x, Some y, Some z, Some w) \<Rightarrow> Some (((x * 16 + y) * 16 + z) * 16 + w)
      | _ \<Rightarrow> None)"
| "hex4 _ = None"

definition decode_u :: "pystr \<Rightarrow> (nat \<times> nat) option" where
  "decode_u s =
     (case hex4 (take 4 s) of
        None \<Rightarrow> None
      | Some uni \<Rightarrow>
          if 55296 \<le> uni \<and> uni \<le> 56319 \<and> take 2 (drop 4 s) = [92, 117] then
            (case hex4 (take 4 (drop 6 s)) of
               None \<Rightarrow> None
             | Some uni2 \<Rightarrow>
                 if 56320 \<le> uni2 \<and> uni2 \<le> 57343
                 then Some (65536 + (uni - 55296) * 1024 + (uni2 - 56320), 10)
                 else Some (uni, 4))
          else Some (uni, 4))"

definition unescape :: "nat \<Rightarrow> nat option" where
  "unescape e =
     (if e = 34 then Some 34
      else if e = 92 then Some 92
      else if e = 47 then Some 47
      else if e = 98 then Some 8
      else if e = 102 then Some 12
      else if e = 110 then Some 10
      else if e = 114 then Some 13
      else if e = 116 then Some 9
      else None)"

fun scanstring :: "pystr \<Rightarrow> (pystr \<times> pystr) option" where
  "scanstring [] = None"
| "scanstring (c # cs) =
     (if c = 34 then Some ([], cs)
      else if c = 92 then
        (case cs of
           [] \<Rightarrow> None
         | e # cs' \<Rightarrow>
             if e = 117 then
               (case decode_u cs' of
                  None \<Rightarrow> None
                | Some (uni, k) \<Rightarrow>
                    (case scanstring (drop k cs') of
                       None \<Rightarrow> None
                     | Some (s, r) \<Rightarrow> Some (uni # s, r)))
             else
               (case unescape e of
                  None \<Rightarrow> None
                | Some x \<Rightarrow>
                    (case scanstring cs' of
                       None \<Rightarrow> None
                     | Some (s, r) \<Rightarrow> Some (x # s, r))))
      else if c < 32 then None
      else (case scanstring cs of None \<Rightarrow> None | Some (s, r) \<Rightarrow> Some (c # s, r)))"

lemma scanstring_shorter: "scanstring s = Some (x, r) \<Longrightarrow> length r < length s"
proof (induction s arbitrary: x r rule: scanstring.induct)
  case 1
  then show ?case by simp
next
  case (2 c cs)
  show ?case
  proof (cases "c = 34")
    case True
    with "2.prems" show ?thesis by simp
  next
    case n34: False
    show ?thesis
    proof (cases "c = 92")
      case c92: True
      show ?thesis
      proof (cases cs)
        case Nil
        with "2.prems" n34 c92 show ?thesis by simp
      next
        case (Cons e cs')
        show ?thesis
        proof (cases "e = 117")
          case e117: True
          from "2.prems" n34 c92 Cons e117 obtain uni k s' where
            d: "decode_u cs' = Some (uni, k)" and s: "scanstring (drop k cs') = Some (s', r)"
            by (auto split: option.splits)
          have "length r < length (drop k cs')"
            using "2.IH"(1) n34 c92 Cons e117 d s by blast
          with Cons show ?thesis by simp
        next
          case False
          from "2.prems" n34 c92 Cons False obtain y s' where
            u: "unescape e = Some y" and s: "scanstring cs' = Some (s', r)"
            by (auto split: option.splits)
          have "length r < length cs'"
            using "2.IH"(2) n34 c92 Cons False u s by blast
          with Cons show ?thesis by simp
        qed
      qed
    next
      case n92: False
      from "2.prems" n34 n92 obtain s' where
        n32: "\<not> c < 32" and s: "scanstring cs = Some (s', r)"
        by (auto split: option.splits if_splits)
      have "length r < length cs"
        using "2.IH"(3) n34 n92 n32 s by blast
      then show ?thesis by simp
    qed
  qed
qed

lemma skip_ws_le: "length (skip_ws s) \<le> length s"
  by (simp add: skip_ws_def length_dropWhile_le)

function parse_members :: "pystr \<Rightarrow> (pydict \<times> pystr) option" where
  "parse_members s =
     (case scanstring s of
        None \<Rightarrow> None
      | Some (key, r) \<Rightarrow>
          (case skip_ws r of
             [] \<Rightarrow> None
           | c # r1 \<Rightarrow>
               if c \<noteq> 58 then None
               else
                 (case skip_ws r1 of
                    [] \<Rightarrow> None
                  | q # r2 \<Rightarrow>
                      if q \<noteq> 34 then None
                      else
                        (case scanstring r2 of
                           None \<Rightarrow> None
                         | Some (val, r3) \<Rightarrow>
                             (case skip_ws r3 of
                                [] \<Rightarrow> None
                              | d # r4 \<Rightarrow>
                                  if d = 125 then Some ([(key, val)], r4)
                                  else if d = 44 then
                                    (case skip_ws r4 of
                                       [] \<Rightarrow> None
                                     | q2 # r5 \<Rightarrow>
                                         if q2 \<noteq> 34 then None
                                         else
                                           (case parse_members r5 of
                                              None \<Rightarrow> None
                                            | Some (ps, rest) \<Rightarrow> Some ((key, val) # ps, rest)))
                                  else None)))))"
  by pat_completeness auto
termination
proof (relation "measure length", goal_cases)
  case 1
  then show ?case by simp
next
  case (2 s x2 key r c r1 q r2 x2a val r3 d r4 q2 r5)
  have a: "length r < length s" using 2 scanstring_shorter by metis
  have b: "length (c # r1) \<le> length r" using 2 skip_ws_le [of r] by metis
  have c: "length (q # r2) \<le> length r1" using 2 skip_ws_le [of r1] by metis
  have d: "length r3 < length r2" using 2 scanstring_shorter by metis
  have e: "length (d # r4) \<le> length r3" using 2 skip_ws_le [of r3] by metis
  have f: "length (q2 # r5) \<le> length r4" using 2 skip_ws_le [of r4] by metis
  from a b c d e f show ?case by simp
qed

declare parse_members.simps [simp del]

definition dict_of_pairs :: "pydict \<Rightarrow> pydict" where
  "dict_of_pairs ps = foldl (\<lambda>d kv. AList.update (fst kv) (snd kv) d) [] ps"

definition json_loads :: "pystr \<Rightarrow> os_error + pydict" where
  "json_loads text =
     (case skip_ws text of
        [] \<Rightarrow> Inl JSONDecodeError
      | c # r \<Rightarrow>
          if c \<noteq> 123 then Inl JSONDecodeError
          else
            (case skip_ws r of
               [] \<Rightarrow> Inl JSONDecodeError
             | d # r' \<Rightarrow>
                 if d = 125 then (if skip_ws r' = [] then Inr [] else Inl JSONDecodeError)
                 else if d = 34 then
                   (case parse_members r' of
                      None \<Rightarrow> Inl JSONDecodeError
                    | Some (ps, rest) \<Rightarrow>
                        if skip_ws rest = [] then Inr (dict_of_pairs ps) else Inl JSONDecodeError)
                 else Inl JSONDecodeError))"

section \<open>Paths below the target directory\<close>

text \<open>
  \<^verbatim>\<open>os.path.join(target_dir, rel_path)\<close>, as components below the target directory: the
  relative path is split at the separator; empty components and \<^verbatim>\<open>.\<close> name no
  directory of their own. The relative paths that \<^verbatim>\<open>os.path.relpath\<close> gives for files
  below the scanned directory have no \<^verbatim>\<open>..\<close> component and are not absolute, and
  only such paths are meant here. Two paths of this form have the same
  \<^verbatim>\<open>os.path.abspath\<close> exactly when their component lists are equal.
\<close>

fun split_sep :: "pystr \<Rightarrow> pystr list" where
  "split_sep [] = [[]]"
| "split_sep (c # cs) =
     (if c = 47 then [] # split_sep cs
      else (case split_sep cs of [] \<Rightarrow> [[c]] | w # ws \<Rightarrow> (c # w) # ws))"

definition path_components :: "pystr \<Rightarrow> path" where
  "path_components s = filter (\<lambda>n. n \<noteq> [] \<and> n \<noteq> [46]) (split_sep s)"

definition os_path_basename :: "path \<Rightarrow> pystr" where
  "os_path_basename p = (if p = [] then [] else last p)"

definition os_path_dirname :: "path \<Rightarrow> path" where
  "os_path_dirname p = butlast p"

section \<open>os.makedirs and shutil.move\<close>

text \<open>
  \<^verbatim>\<open>os.makedirs(name, exist_ok=True)\<close>: missing directories are created (a new entry
  goes to the end of its directory's listing); a regular file on the way raises.
\<close>

fun os_makedirs :: "fsnode \<Rightarrow> path \<Rightarrow> os_error + fsnode" where
  "os_makedirs (File r c) [] = Inl FileExistsError"
| "os_makedirs (File r c) (n # p) = Inl NotADirectoryError"
| "os_makedirs (Dir es) [] = Inr (Dir es)"
| "os_makedirs (Dir es) (n # p) =
     (case map_of es n of
        None \<Rightarrow>
          (case os_makedirs (Dir []) p of
             Inl e \<Rightarrow> Inl e
           | Inr sub \<Rightarrow> Inr (Dir (es @ [(n, sub)])))
      | Some sub \<Rightarrow>
          (case os_makedirs sub p of
             Inl e \<Rightarrow> Inl e
           | Inr sub' \<Rightarrow> Inr (Dir (AList.update n sub' es))))"

text \<open>Removing the entry at a path (the source side of a rename).\<close>

fun fs_remove :: "fsnode \<Rightarrow> path \<Rightarrow> fsnode" where
  "fs_remove t [] = t"
| "fs_remove (File r c) (n # p) = File r c"
| "fs_remove (Dir es) [n] = Dir (AList.delete n es)"
| "fs_remove (Dir es) (n # m # p) = Dir (AList.map_entry n (\<lambda>sub. fs_remove sub (m # p)) es)"

text \<open>
  Placing a node at a path whose parent directory exists: an existing entry of that name
  is replaced, a new one goes to the end of the listing.
\<close>

fun fs_put :: "fsnode \<Rightarrow> path \<Rightarrow> fsnode \<Rightarrow> fsnode option" where
  "fs_put t [] x = None"
| "fs_put (File r c) (n # p) x = None"
| "fs_put (Dir es) [n] x = Some (Dir (AList.update n x es))"
| "fs_put (Dir es) (n # m # p) x =
     (case map_of es n of
        None \<Rightarrow> None
      | Some sub \<Rightarrow>
          (case fs_put sub (m # p) x of
             None \<Rightarrow> None
           | Some sub' \<Rightarrow> Some (Dir (AList.update n sub' es))))"

text \<open>
  \<^verbatim>\<open>os.rename(src, dst)\<close> for a regular file \<open>src\<close>, \<open>dst\<close> not a directory: a regular
  file at \<open>dst\<close> is replaced. (Where the platform's rename refuses an existing
  destination, \<^verbatim>\<open>shutil.move\<close> falls back to copy and unlink, with the same result.)
\<close>

definition os_rename :: "fsnode \<Rightarrow> path \<Rightarrow> path \<Rightarrow> os_error + fsnode" where
  "os_rename fs src dst =
     (case fs_lookup fs src of
        Some (File r c) \<Rightarrow>
          (case fs_put (fs_remove fs src) dst (File r c) of
             None \<Rightarrow> Inl FileNotFoundError
           | Some fs' \<Rightarrow> Inr fs')
      | _ \<Rightarrow> Inl FileNotFoundError)"

text \<open>
  \<^verbatim>\<open>shutil.move(src, dst)\<close>: when \<open>dst\<close> is an existing directory the file goes inside
  it under its own base name, and \<^verbatim>\<open>shutil.Error\<close> is raised when that name is taken.
\<close>

definition shutil_move :: "fsnode \<Rightarrow> path \<Rightarrow> path \<Rightarrow> os_error + fsnode" where
  "shutil_move fs src dst =
     (case fs_lookup fs dst of
        Some (Dir es) \<Rightarrow>
          (let real_dst = dst @ [os_path_basename src]
           in case fs_lookup fs real_dst of
                Some x \<Rightarrow> Inl ShutilError
              | None \<Rightarrow> os_rename fs src real_dst)
      | _ \<Rightarrow> os_rename fs src dst)"

section \<open>sync_target\<close>

type_synonym pyindex = "(pystr \<times> path) list"

text \<open>The indexing loop: every file of the walk is fingerprinted, the last one wins.\<close>

fun index_step :: "(byte list \<Rightarrow> 128 word) \<Rightarrow> fsnode \<Rightarrow> pyindex \<Rightarrow> path \<times> pystr \<Rightarrow> pyindex" where
  "index_step md5 fs target_index (root, file) =
     (let full_path = root @ [file]
      in case get_fast_md5 md5 fs full_path of
           None \<Rightarrow> target_index
         | Some f_hash \<Rightarrow>
             if f_hash = [] then target_index
             else AList.update f_hash full_path target_index)"

definition build_index :: "(byte list \<Rightarrow> 128 word) \<Rightarrow> fsnode \<Rightarrow> pyindex" where
  "build_index md5 fs = foldl (index_step md5 fs) [] (walk_pairs (walk [] fs))"

text \<open>
  The loop over \<^verbatim>\<open>mapping.items()\<close>. It returns the error that ended it (if any), the
  file system, the log and \<^verbatim>\<open>moved_count\<close>. The log line of a move is written after
  the move, so a move that raises leaves no line.
\<close>

fun move_loop :: "bool \<Rightarrow> pyindex \<Rightarrow> pydict \<Rightarrow> fsnode \<Rightarrow> log_line list \<Rightarrow> nat
    \<Rightarrow> os_error option \<times> fsnode \<times> log_line list \<times> nat" where
  "move_loop dry_run target_index [] fs lg moved_count = (None, fs, lg, moved_count)"
| "move_loop dry_run target_index ((f_hash, rel_path) # mapping) fs lg moved_count =
     (case map_of target_index f_hash of
        None \<Rightarrow> move_loop dry_run target_index mapping fs lg moved_count
      | Some old_path \<Rightarrow>
          (let new_path = path_components rel_path
           in if old_path = new_path then
                move_loop dry_run target_index mapping fs lg moved_count
              else if dry_run then
                move_loop dry_run target_index mapping fs
                  (lg @ [Moved True (os_path_basename old_path) rel_path]) (moved_count + 1)
              else
                (case os_makedirs fs (os_path_dirname new_path) of
                   Inl e \<Rightarrow> (Some e, fs, lg, moved_count)
                 | Inr fs1 \<Rightarrow>
                     (case shutil_move fs1 old_path new_path of
                        Inl e \<Rightarrow> (Some e, fs1, lg, moved_count)
                      | Inr fs2 \<Rightarrow>
                          move_loop dry_run target_index mapping fs2
                            (lg @ [Moved False (os_path_basename old_path) rel_path])
                            (moved_count + 1)))))"

text \<open>
  The clean-up loop over \<^verbatim>\<open>os.walk(target_dir, topdown=False)\<close>. The generator lists a
  directory, walks its sub-directories and only then yields the directory with the
  names it listed; the loop body then removes each listed sub-directory that
  \<^verbatim>\<open>os.listdir\<close> finds empty. \<open>rmdir_empty\<close> is that loop body on the directory's
  entries, \<open>cleanup_walk\<close> the walk with the body run at every yield.
\<close>

fun rmdir_empty :: "pystr list \<Rightarrow> (pystr \<times> fsnode) list \<Rightarrow> (pystr \<times> fsnode) list" where
  "rmdir_empty [] es = es"
| "rmdir_empty (d # dirs) es =
     rmdir_empty dirs (case map_of es d of Some (Dir []) \<Rightarrow> AList.delete d es | _ \<Rightarrow> es)"

fun cleanup_walk :: "fsnode \<Rightarrow> fsnode"
  and cleanup_entries :: "(pystr \<times> fsnode) list \<Rightarrow> (pystr \<times> fsnode) list" where
  "cleanup_walk (File r c) = File r c"
| "cleanup_walk (Dir es) = Dir (rmdir_empty (dir_names es) (cleanup_entries es))"
| "cleanup_entries [] = []"
| "cleanup_entries ((n, sub) # es) = (n, cleanup_walk sub) # cleanup_entries es"

text \<open>
  The mapping file as \<^verbatim>\<open>sync_target\<close> finds it. It lies outside the target directory.
\<close>

datatype mapfile = Absent | IsDirectory | Regular pystr

datatype outcome = Returned | Raised os_error

text \<open>
  \<^verbatim>\<open>sync_target\<close> after the mapping is loaded. A target directory that does not exist
  (\<open>None\<close>) or is not a directory gives an empty walk, hence an empty index, and no
  entry of the mapping is matched.
\<close>

definition reconcile :: "(byte list \<Rightarrow> 128 word) \<Rightarrow> fsnode option \<Rightarrow> pydict \<Rightarrow> bool
    \<Rightarrow> fsnode option \<times> log_line list \<times> outcome" where
  "reconcile md5 target mapping dry_run =
     (let lg = [IndexStart, MatchStart] @ (if dry_run then [DryRunNotice] else [])
      in case target of
           None \<Rightarrow>
             (None, lg @ (if dry_run then [] else [CleanStart]) @ [SyncDone 0], Returned)
         | Some fs \<Rightarrow>
             (case move_loop dry_run (build_index md5 fs) mapping fs lg 0 of
                (Some e, fs', lg', moved_count) \<Rightarrow> (Some fs', lg', Raised e)
              | (None, fs', lg', moved_count) \<Rightarrow>
                  if dry_run then (Some fs', lg' @ [SyncDone moved_count], Returned)
                  else (Some (cleanup_walk fs'), lg' @ [CleanStart, SyncDone moved_count],
                        Returned)))"

definition sync_target :: "(byte list \<Rightarrow> 128 word) \<Rightarrow> fsnode option \<Rightarrow> mapfile \<Rightarrow> bool
    \<Rightarrow> fsnode option \<times> log_line list \<times> outcome" where
  "sync_target md5 target mapping_json dry_run =
     (case mapping_json of
        Absent \<Rightarrow> (target, [MapMissing], Returned)
      | IsDirectory \<Rightarrow> (target, [], Raised IsADirectoryError)
      | Regular text \<Rightarrow>
          (case json_loads text of
             Inl e \<Rightarrow> (target, [], Raised e)
           | Inr mapping \<Rightarrow> reconcile md5 target mapping dry_run))"

text \<open>The moves a run reports, in order: base name of the old path and relative path.\<close>

fun moves_of :: "log_line list \<Rightarrow> (pystr \<times> pystr) list" where
  "moves_of [] = []"
| "moves_of (Moved d b r # lg) = (b, r) # moves_of lg"
| "moves_of (l # lg) = moves_of lg"

text \<open>
  The moves that step 2 of the reconciler plans (spec 4.4): for every pair of the mapping,
  in its order, whose fingerprint is in the index and whose indexed path is not already
  the destination, the base name of the indexed path and the relative destination.
\<close>

fun planned_moves :: "pyindex \<Rightarrow> pydict \<Rightarrow> (pystr \<times> pystr) list" where
  "planned_moves target_index [] = []"
| "planned_moves target_index ((f_hash, rel_path) # mapping) =
     (case map_of target_index f_hash of
        None \<Rightarrow> planned_moves target_index mapping
      | Some old_path \<Rightarrow>
          if old_path = path_components rel_path then planned_moves target_index mapping
          else (os_path_basename old_path, rel_path) # planned_moves target_index mapping)"

section \<open>scan_source and main\<close>

text \<open>
  \<^verbatim>\<open>scan_source\<close> returns the text written to the mapping file, or the error raised by
  writing it, and the log. A source directory that does not exist gives an empty walk.
\<close>

definition scan_source :: "(byte list \<Rightarrow> 128 word) \<Rightarrow> fsnode option \<Rightarrow> nat
    \<Rightarrow> (os_error + pystr) \<times> log_line list" where
  "scan_source md5 source progress_every =
     (case (case source of
              None \<Rightarrow> ([], 0, [ScanStart])
            | Some fs \<Rightarrow> scan_mapping md5 fs progress_every) of
        (mapping, count, lg) \<Rightarrow>
          (case write_utf8 (json_dumps mapping) of
             Inl e \<Rightarrow> (Inl e, lg)
           | Inr text \<Rightarrow> (Inr text, lg @ [ScanDone count, MapSaved])))"

datatype mode = Scan | Sync

record args =
  arg_mode :: mode
  arg_src :: "pystr option"
  arg_dst :: "pystr option"
  arg_dry_run :: bool

text \<open>\<^verbatim>\<open>not args.dst\<close>: the option was not given, or is the empty string.\<close>

definition falsy :: "pystr option \<Rightarrow> bool" where
  "falsy v = (v = None \<or> v = Some [])"

text \<open>
  \<^verbatim>\<open>main\<close> after argument parsing: \<open>dir\<close> is the directory that \<^verbatim>\<open>--src\<close> or \<^verbatim>\<open>--dst\<close>
  names, \<open>mapping_json\<close> the file that \<^verbatim>\<open>--map\<close> names. The interpreter exits with
  status 0 when \<^verbatim>\<open>main\<close> returns and with status 1 on an uncaught exception.
\<close>

definition main :: "(byte list \<Rightarrow> 128 word) \<Rightarrow> args \<Rightarrow> fsnode option \<Rightarrow> mapfile \<Rightarrow> outcome" where
  "main md5 a dir mapping_json =
     (case arg_mode a of
        Scan \<Rightarrow>
          if falsy (arg_src a) then Returned
          else (case scan_source md5 dir 10 of
                  (Inl e, lg) \<Rightarrow> Raised e
                | (Inr text, lg) \<Rightarrow> Returned)
      | Sync \<Rightarrow>
          if falsy (arg_dst a) then Returned
          else snd (snd (sync_target md5 dir mapping_json (arg_dry_run a))))"

definition exit_code :: "outcome \<Rightarrow> nat" where
  "exit_code r = (case r of Returned \<Rightarrow> 0 | Raised e \<Rightarrow> 1)"

section \<open>A digest for concrete instances\<close>

text \<open>
  Concrete instances need a concrete digest function. \<open>toy_md5\<close> reads the message as a
  number in base 256 behind a leading 1, so messages of up to 15 bytes get different
  digests.
\<close>

definition toy_md5 :: "byte list \<Rightarrow> 128 word" where
  "toy_md5 bs = of_nat (foldl (\<lambda>a b. 256 * a + unat b) 1 bs)"

section \<open>Properties of the fingerprint\<close>

lemma hex_of_digest_length: "length (hex_of_digest w) = 32"
  by (simp add: hex_of_digest_def)

lemma hex_of_digest_nonempty: "hex_of_digest w \<noteq> []"
  using hex_of_digest_length [of w] by auto

lemma decimal_value_snoc: "decimal_value (s @ [c]) = 10 * decimal_value s + (c - 48)"
  by (simp add: decimal_value_def)

lemma decimal_value_str_nat: "decimal_value (str_nat n) = n"
proof (induction n rule: str_nat.induct)
  case (1 n)
  show ?case
  proof (cases "n < 10")
    case True
    then show ?thesis
      by (subst str_nat.simps) (simp add: decimal_value_def)
  next
    case False
    with "1" have "decimal_value (str_nat (n div 10)) = n div 10" by simp
    with False show ?thesis
      by (subst str_nat.simps) (simp add: decimal_value_snoc)
  qed
qed

lemma feed_samples_small:
  "length c \<le> 3 * sample_size \<Longrightarrow> message (feed_samples c) = c"
  by (simp add: feed_samples_def Let_def f_read_all_def open_rb_def md5_update_def
      hashlib_md5_def mult.commute)

lemma feed_samples_large:
  "\<not> length c \<le> 3 * sample_size \<Longrightarrow>
   message (feed_samples c) =
     take sample_size c @ take sample_size (drop (length c div 2) c) @
     take sample_size (drop (length c - sample_size) c) @ encode_ascii (str_nat (length c))"
  by (simp add: feed_samples_def Let_def f_read_def f_seek_def open_rb_def md5_update_def
      hashlib_md5_def mult.commute)

text \<open>
  C1. For a readable file with bytes \<open>c\<close>, \<open>get_fast_md5\<close> returns the digest of the
  whole content when the size is at most 3 MiB, and otherwise the digest of the first
  MiB, then the MiB read from offset size div 2, then the MiB read from offset
  size - 1 MiB, then the decimal string of the size.
\<close>

theorem get_fast_md5_samples:
  "fs_lookup fs file_path = Some (File True c) \<Longrightarrow>
   get_fast_md5 md5 fs file_path =
     Some (hex_of_digest (md5
       (if length c \<le> 3 * (1024 * 1024) then c
        else take (1024 * 1024) c @
             take (1024 * 1024) (drop (length c div 2) c) @
             take (1024 * 1024) (drop (length c - 1024 * 1024) c) @
             encode_ascii (str_nat (length c)))))"
proof (cases "length c \<le> 3 * sample_size")
  case True
  assume "fs_lookup fs file_path = Some (File True c)"
  with True feed_samples_small [OF True] show ?thesis
    by (simp add: get_fast_md5_def get_fast_md5_try_def hexdigest_def sample_size_def)
next
  case False
  assume "fs_lookup fs file_path = Some (File True c)"
  with False feed_samples_large [OF False] show ?thesis
    by (simp add: get_fast_md5_def get_fast_md5_try_def hexdigest_def sample_size_def)
qed

theorem get_fast_md5_samples_witness:
  "fs_lookup (Dir [(py ''big'', File True (replicate 4194304 7))]) [py ''big'']
     = Some (File True (replicate 4194304 7)) \<and>
   get_fast_md5 toy_md5 (Dir [(py ''big'', File True (replicate 4194304 7))]) [py ''big'']
     = Some (hex_of_digest (toy_md5
         (replicate 1048576 7 @ replicate 1048576 7 @ replicate 1048576 7 @
          encode_ascii (py ''4194304''))))"
proof -
  have h: "fs_lookup (Dir [(py ''big'', File True (replicate 4194304 7))]) [py ''big'']
     = Some (File True (replicate 4194304 7))" by simp
  show ?thesis
    using h get_fast_md5_samples [OF h, of toy_md5]
    by (simp add: str_nat.simps)
qed

section \<open>Properties of sync_target\<close>

lemma moves_of_append: "moves_of (lg @ lg') = moves_of lg @ moves_of lg'"
  by (induction lg rule: moves_of.induct) simp_all

lemma moves_of_Moved: "moves_of (map (\<lambda>(b, r). Moved d b r) ps) = ps"
  by (induction ps) auto

lemma move_loop_dry:
  "move_loop True idx m fs lg n =
     (None, fs, lg @ map (\<lambda>(b, r). Moved True b r) (planned_moves idx m),
      n + length (planned_moves idx m))"
proof (induction m arbitrary: lg n)
  case Nil
  show ?case by simp
next
  case (Cons x m)
  obtain h rel where x: "x = (h, rel)" by (cases x)
  show ?case unfolding x by (simp add: Cons.IH Let_def split: option.splits)
qed

lemma move_loop_real:
  "move_loop False idx m fs lg n = (e, fs', lg', n') \<Longrightarrow>
   \<exists>k. k \<le> length (planned_moves idx m) \<and>
       lg' = lg @ map (\<lambda>(b, r). Moved False b r) (take k (planned_moves idx m)) \<and>
       n' = n + k \<and> (e = None \<longrightarrow> k = length (planned_moves idx m))"
proof (induction m arbitrary: fs lg n)
  case Nil
  then show ?case by simp
next
  case (Cons x m)
  obtain h rel where x: "x = (h, rel)" by (cases x)
  show ?case
  proof (cases "map_of idx h")
    case None
    with Cons.prems have "move_loop False idx m fs lg n = (e, fs', lg', n')"
      by (simp add: x)
    from Cons.IH [OF this] show ?thesis by (simp add: x None)
  next
    case (Some old)
    show ?thesis
    proof (cases "old = path_components rel")
      case True
      with Cons.prems Some have "move_loop False idx m fs lg n = (e, fs', lg', n')"
        by (simp add: x)
      from Cons.IH [OF this] show ?thesis by (simp add: x Some True)
    next
      case False
      show ?thesis
      proof (cases "os_makedirs fs (os_path_dirname (path_components rel))")
        case (Inl err)
        with Cons.prems Some False have "lg' = lg" "n' = n" "e = Some err"
          by (simp_all add: x)
        then show ?thesis by (intro exI [of _ 0]) simp
      next
        case (Inr fs1)
        show ?thesis
        proof (cases "shutil_move fs1 old (path_components rel)")
          case (Inl err)
          with Cons.prems Some False Inr have "lg' = lg" "n' = n" "e = Some err"
            by (simp_all add: x)
          then show ?thesis by (intro exI [of _ 0]) simp
        next
          case fs2: (Inr fs2)
          with Cons.prems Some False Inr have
            "move_loop False idx m fs2 (lg @ [Moved False (os_path_basename old) rel]) (n + 1)
               = (e, fs', lg', n')"
            by (simp add: x)
          from Cons.IH [OF this] obtain k where
            k: "k \<le> length (planned_moves idx m)"
               "lg' = (lg @ [Moved False (os_path_basename old) rel]) @
                   map (\<lambda>(b, r). Moved False b r) (take k (planned_moves idx m))"
               "n' = n + 1 + k" "e = None \<longrightarrow> k = length (planned_moves idx m)"
            by auto
          then show ?thesis
            by (intro exI [of _ "Suc k"]) (simp add: x Some False)
        qed
      qed
    qed
  qed
qed

text \<open>
  C3 (as amended). A dry run leaves the target directory as it was. The moves that the
  real run reports are a prefix of the moves that the dry run reports, and the two
  sequences are equal whenever the real run returns (no move raised).
\<close>

theorem dry_run_preview:
  "fst (sync_target md5 target mj True) = target \<and>
   prefix (moves_of (fst (snd (sync_target md5 target mj False))))
          (moves_of (fst (snd (sync_target md5 target mj True)))) \<and>
   (snd (snd (sync_target md5 target mj False)) = Returned \<longrightarrow>
      moves_of (fst (snd (sync_target md5 target mj False))) =
      moves_of (fst (snd (sync_target md5 target mj True))))"
proof (cases mj)
  case Absent
  then show ?thesis by (simp add: sync_target_def)
next
  case IsDirectory
  then show ?thesis by (simp add: sync_target_def)
next
  case (Regular doc)
  show ?thesis
  proof (cases "json_loads doc")
    case (Inl err)
    with Regular show ?thesis by (simp add: sync_target_def)
  next
    case (Inr mapping)
    show ?thesis
    proof (cases target)
      case None
      with Regular Inr show ?thesis by (simp add: sync_target_def reconcile_def)
    next
      case (Some fs)
      define idx where "idx = build_index md5 fs"
      define P where "P = planned_moves idx mapping"
      obtain e fs' lg' n' where
        real: "move_loop False idx mapping fs [IndexStart, MatchStart] 0 = (e, fs', lg', n')"
        by (cases "move_loop False idx mapping fs [IndexStart, MatchStart] 0") auto
      from move_loop_real [OF real] obtain k where
        k: "k \<le> length P"
           "lg' = [IndexStart, MatchStart] @ map (\<lambda>(b, r). Moved False b r) (take k P)"
           "e = None \<longrightarrow> k = length P"
        by (auto simp: P_def)
      have dry: "move_loop True idx mapping fs [IndexStart, MatchStart, DryRunNotice] 0 =
          (None, fs, [IndexStart, MatchStart, DryRunNotice] @ map (\<lambda>(b, r). Moved True b r) P,
           0 + length P)"
        unfolding P_def by (rule move_loop_dry)
      have mdry: "moves_of (fst (snd (sync_target md5 target mj True))) = P"
        using Regular Inr Some dry
        by (simp add: sync_target_def reconcile_def idx_def [symmetric] moves_of_append
            moves_of_Moved)
      have mreal: "moves_of (fst (snd (sync_target md5 target mj False))) = take k P"
        using Regular Inr Some real k(2)
        by (cases e) (simp_all add: sync_target_def reconcile_def idx_def [symmetric]
            moves_of_append moves_of_Moved)
      have ret: "snd (snd (sync_target md5 target mj False)) = Returned \<Longrightarrow> e = None"
        using Regular Inr Some real
        by (cases e) (simp_all add: sync_target_def reconcile_def idx_def [symmetric])
      have unchanged: "fst (sync_target md5 target mj True) = target"
        using Regular Inr Some dry
        by (simp add: sync_target_def reconcile_def idx_def [symmetric])
      show ?thesis
        using mdry mreal ret k(3) unchanged by (auto simp: take_is_prefix)
    qed
  qed
qed

text \<open>
  C8 (as amended). The fingerprint of a readable zero-byte file is the digest of the empty
  message alone: its size 0 is at most 3 MiB, so the whole (empty) content is hashed and
  no size string is added. Computing it returns a value (there is no error).
\<close>

theorem zero_byte_fingerprint:
  "fs_lookup fs file_path = Some (File True []) \<Longrightarrow>
   get_fast_md5 md5 fs file_path = Some (hex_of_digest (md5 []))"
  using feed_samples_small [of "[]"]
  by (simp add: get_fast_md5_def get_fast_md5_try_def hexdigest_def)

theorem zero_byte_fingerprint_witness:
  "fs_lookup (Dir [(py ''empty'', File True [])]) [py ''empty''] = Some (File True []) \<and>
   get_fast_md5 toy_md5 (Dir [(py ''empty'', File True [])]) [py ''empty'']
     = Some (py ''00000000000000000000000000000001'')"
proof -
  have h: "fs_lookup (Dir [(py ''empty'', File True [])]) [py ''empty''] = Some (File True [])"
    by simp
  have d: "hex_of_digest (toy_md5 []) = py ''00000000000000000000000000000001''"
    by code_simp
  show ?thesis using h zero_byte_fingerprint [OF h, of toy_md5] d by simp
qed

text \<open>
  C8 as stated fails: for the empty file the hash object is fed the empty message, not the
  empty content followed by the size string \<open>0\<close>, and with the digest \<open>toy_md5\<close> the two
  fingerprints differ.
\<close>

theorem zero_byte_size_counterexample:
  "message (feed_samples []) = [] \<and>
   message (feed_samples []) \<noteq> [] @ encode_ascii (str_nat 0) \<and>
   get_fast_md5 toy_md5 (Dir [(py ''empty'', File True [])]) [py ''empty'']
     \<noteq> Some (hex_of_digest (toy_md5 ([] @ encode_ascii (str_nat 0))))"
proof -
  have s: "str_nat 0 = [48]" by (simp add: str_nat.simps)
  have m: "message (feed_samples []) = []" using feed_samples_small [of "[]"] by simp
  have d0: "hex_of_digest (toy_md5 []) = py ''00000000000000000000000000000001''"
    by code_simp
  have d1: "hex_of_digest (toy_md5 [48]) = py ''00000000000000000000000000000130''"
    by code_simp
  have g: "get_fast_md5 toy_md5 (Dir [(py ''empty'', File True [])]) [py ''empty'']
      = Some (hex_of_digest (toy_md5 []))"
    by (simp add: get_fast_md5_def get_fast_md5_try_def hexdigest_def m)
  show ?thesis using s m d0 d1 g by (simp add: encode_ascii_def)
qed

text \<open>
  C7. When the mapping file does not exist, \<open>sync_target\<close> logs the missing file and
  returns: the target directory is unchanged and the log holds that one line only, so
  indexing has not begun.
\<close>

theorem sync_missing_mapping:
  "sync_target md5 target Absent dry_run = (target, [MapMissing], Returned)"
  by (simp add: sync_target_def)

text \<open>
  C9 as stated fails: with a target directory and no mapping file, \<open>main\<close> returns after
  the report and the exit status is 0.
\<close>

theorem sync_exit_code_counterexample:
  "exit_code (main toy_md5
      \<lparr>arg_mode = Sync, arg_src = None, arg_dst = Some (py ''backup''), arg_dry_run = False\<rparr>
      (Some (Dir [(py ''a'', File True [1])])) Absent) = 0"
  by (simp add: exit_code_def main_def falsy_def sync_target_def)

lemma dry_never_raises:
  "json_loads text = Inr mapping \<Longrightarrow>
   snd (snd (sync_target md5 target (Regular text) True)) = Returned"
  by (cases target) (simp_all add: sync_target_def reconcile_def move_loop_dry)

text \<open>
  C9 (as amended). The sync command exits with status 0 when the mapping file is missing
  (after the report), when no target directory is given, when the target directory does
  not exist and the mapping loads, and for every dry run whose mapping loads.
\<close>

theorem sync_exit_code:
  "arg_mode a = Sync \<Longrightarrow>
   (mj = Absent \<or> falsy (arg_dst a) \<or>
    (\<exists>text mapping. mj = Regular text \<and> json_loads text = Inr mapping \<and>
       (target = None \<or> arg_dry_run a))) \<Longrightarrow>
   exit_code (main md5 a target mj) = 0"
  using dry_never_raises
  by (auto simp: exit_code_def main_def sync_target_def reconcile_def)

end
